theory Spec2Isabelle
  imports Complex_Main "HOL-Library.Sublist"
begin

section \<open>SOLPRISM integration of the Agent Treasury Manager\<close>

text \<open>
  A shallow embedding of \<^verbatim>\<open>src/integrations/solprism.ts\<close>: the class
  \<^verbatim>\<open>SolprismTreasury\<close>, which wraps a treasury action in a commit, execute, reveal
  cycle driven through the external \<^verbatim>\<open>@solprism/sdk\<close> client.
\<close>

subsection \<open>Strings\<close>

text \<open>
  A JavaScript string is a sequence of UTF-16 code units, and \<^verbatim>\<open>slice\<close> and
  \<^verbatim>\<open>length\<close> count code units. A string is therefore a list of code units (numbers);
  \<open>js\<close> turns an ASCII literal into one.
\<close>

type_synonym jsstring = "nat list"

definition js :: "string \<Rightarrow> jsstring" where
  "js s = map of_char s"

text \<open>\<^verbatim>\<open>Array.prototype.join\<close> on an array of strings.\<close>

fun join :: "jsstring \<Rightarrow> jsstring list \<Rightarrow> jsstring" where
  "join sep [] = []"
| "join sep [x] = x"
| "join sep (x # y # ys) = x @ sep @ join sep (y # ys)"

text \<open>\<^verbatim>\<open>s.slice(0, n)\<close> for a non-negative \<open>n\<close>.\<close>

definition slice0 :: "nat \<Rightarrow> jsstring \<Rightarrow> jsstring" where
  "slice0 n s = take n s"

text \<open>
  \<^verbatim>\<open>toUpperCase\<close>, on the code units of the ASCII letters. The source applies it to
  the action kind only, whose strings are lower-case ASCII letters and underscores.
\<close>

definition toUpperCase :: "jsstring \<Rightarrow> jsstring" where
  "toUpperCase s = map (\<lambda>c. if 97 \<le> c \<and> c \<le> 122 then c - 32 else c) s"

text \<open>The decimal rendering of a non-negative integer, as a template literal prints it.\<close>

fun String_of_nat :: "nat \<Rightarrow> jsstring" where
  "String_of_nat n =
     (if n < 10 then [48 + n] else String_of_nat (n div 10) @ [48 + n mod 10])"

declare String_of_nat.simps [simp del]

subsection \<open>Types\<close>

datatype TreasuryActionType =
    Rebalance
  | Transfer
  | Allocation
  | Fee_collection
  | Yield_deployment
  | Payment
  | Swap
  | Emergency_withdrawal

text \<open>The string each member of the union type is at run time.\<close>

fun TreasuryActionType_string :: "TreasuryActionType \<Rightarrow> jsstring" where
  "TreasuryActionType_string Rebalance = js ''rebalance''"
| "TreasuryActionType_string Transfer = js ''transfer''"
| "TreasuryActionType_string Allocation = js ''allocation''"
| "TreasuryActionType_string Fee_collection = js ''fee_collection''"
| "TreasuryActionType_string Yield_deployment = js ''yield_deployment''"
| "TreasuryActionType_string Payment = js ''payment''"
| "TreasuryActionType_string Swap = js ''swap''"
| "TreasuryActionType_string Emergency_withdrawal = js ''emergency_withdrawal''"

datatype RiskLevel = Low | Medium | High | Critical

fun RiskLevel_string :: "RiskLevel \<Rightarrow> jsstring" where
  "RiskLevel_string Low = js ''low''"
| "RiskLevel_string Medium = js ''medium''"
| "RiskLevel_string High = js ''high''"
| "RiskLevel_string Critical = js ''critical''"

text \<open>
  A JavaScript \<^verbatim>\<open>number\<close> is only ever passed through by this code, never computed
  with; it is modelled as a real. An optional field is an \<open>option\<close>.
\<close>

record Risk =
  level :: RiskLevel
  factors :: "jsstring list"

record PortfolioContext =
  totalValueUSD :: real
  positions :: "(jsstring \<times> real) list"

record TreasuryReasoning =
  action :: TreasuryActionType
  rationale :: jsstring
  risk :: Risk
  expectedOutcome :: jsstring
  portfolioContext :: "PortfolioContext option"
  constraints :: "jsstring list option"

subsection \<open>The reasoning trace\<close>

text \<open>
  The object literal that \<^verbatim>\<open>toReasoningTrace\<close> hands to the SDK's
  \<^verbatim>\<open>createReasoningTrace\<close>. The parameter object is an association list in the
  order in which the literal and its spreads insert the keys.
\<close>

datatype ParameterValue =
    PString jsstring
  | PStrings "jsstring list"
  | PNumber real
  | PRecord "(jsstring \<times> real) list"

record TraceAction =
  a_type :: TreasuryActionType
  a_description :: jsstring
  a_parameters :: "(string \<times> ParameterValue) list"

record TraceDecision =
  d_confidence :: nat
  d_reasoning :: jsstring
  d_expectedOutcome :: jsstring

record TraceInput =
  t_action :: TraceAction
  t_decision :: TraceDecision

text \<open>Map risk levels to confidence scores (0-100).\<close>

fun RISK_TO_CONFIDENCE :: "RiskLevel \<Rightarrow> nat" where
  "RISK_TO_CONFIDENCE Low = 90"
| "RISK_TO_CONFIDENCE Medium = 70"
| "RISK_TO_CONFIDENCE High = 45"
| "RISK_TO_CONFIDENCE Critical = 20"

text \<open>
  \<^verbatim>\<open>...(reasoning.portfolioContext && {...})\<close>: an object or an array is truthy
  whatever it holds, so the keys are spread exactly when the optional field is there;
  spreading \<^verbatim>\<open>undefined\<close> adds nothing.
\<close>

definition traceInput :: "TreasuryReasoning \<Rightarrow> TraceInput" where
  "traceInput reasoning =
     \<lparr> t_action =
         \<lparr> a_type = action reasoning,
           a_description = rationale reasoning,
           a_parameters =
             [(''risk_level'', PString (RiskLevel_string (level (risk reasoning)))),
              (''risk_factors'', PStrings (factors (risk reasoning)))]
             @ (case portfolioContext reasoning of
                  None \<Rightarrow> []
                | Some pc \<Rightarrow>
                    [(''portfolio_value_usd'', PNumber (totalValueUSD pc)),
                     (''positions'', PRecord (positions pc))])
             @ (case constraints reasoning of
                  None \<Rightarrow> []
                | Some cs \<Rightarrow> [(''constraints'', PStrings cs)]) \<rparr>,
       t_decision =
         \<lparr> d_confidence = RISK_TO_CONFIDENCE (level (risk reasoning)),
           d_reasoning = rationale reasoning,
           d_expectedOutcome = expectedOutcome reasoning \<rparr> \<rparr>"

text \<open>
  \<^verbatim>\<open>createReasoningTrace\<close> belongs to the SDK, not to this repository; it is a
  parameter, a function from the literal to the SDK's trace type \<open>'t\<close>.
\<close>

definition toReasoningTrace :: "(TraceInput \<Rightarrow> 't) \<Rightarrow> TreasuryReasoning \<Rightarrow> 't" where
  "toReasoningTrace createReasoningTrace reasoning =
     createReasoningTrace (traceInput reasoning)"

subsection \<open>The SDK's types and the external client\<close>

text \<open>
  The types of \<^verbatim>\<open>@solana/web3.js\<close> and \<^verbatim>\<open>@solprism/sdk\<close> are not part of the
  repository. They carry the fields the source reads and those its comments name.
\<close>

datatype PublicKey = PublicKey jsstring

record Keypair =
  publicKey :: PublicKey
  secretKey :: "nat list"

record CommitResult =
  signature :: jsstring
  commitmentAddress :: jsstring
  commitmentHash :: jsstring

record RevealResult =
  revealSignature :: jsstring
  reasoningUri :: jsstring

record VerifyResult =
  valid :: bool
  message :: jsstring

text \<open>
  What a call can throw: the \<^verbatim>\<open>Error\<close> objects this code creates itself, with
  their message, and the values of type \<open>'x\<close> that the external client or the
  caller's action throw or reject with.
\<close>

datatype 'x exn = Error jsstring | Thrown 'x

text \<open>
  Every call that leaves the class is recorded, with its arguments, in the order made.
\<close>

datatype 't call =
    Call_isAgentRegistered PublicKey
  | Call_registerAgent Keypair jsstring
  | Call_commitReasoning Keypair 't
  | Call_action
  | Call_revealReasoning Keypair jsstring jsstring
  | Call_verifyReasoning jsstring 't
  | Call_getAccountability PublicKey
  | Call_getAgentCommitments PublicKey int

text \<open>
  The environment of the class: the SDK's client, each of whose methods reads and
  changes the outside world \<open>'w\<close> and either rejects (\<open>Inl\<close>) or resolves
  (\<open>Inr\<close>); the SDK's \<^verbatim>\<open>createReasoningTrace\<close>; and the run time's clock and
  \<^verbatim>\<open>Date.prototype.toISOString\<close>. \<open>Date_now env i\<close> is what the \<open>i\<close>-th
  \<^verbatim>\<open>new Date()\<close> of the run reads, in milliseconds.
\<close>

record ('w, 'x, 't, 'h) env =
  createReasoningTrace :: "TraceInput \<Rightarrow> 't"
  isAgentRegistered :: "PublicKey \<Rightarrow> 'w \<Rightarrow> ('x + bool) \<times> 'w"
  registerAgent :: "Keypair \<Rightarrow> jsstring \<Rightarrow> 'w \<Rightarrow> ('x + unit) \<times> 'w"
  commitReasoning :: "Keypair \<Rightarrow> 't \<Rightarrow> 'w \<Rightarrow> ('x + CommitResult) \<times> 'w"
  revealReasoning :: "Keypair \<Rightarrow> jsstring \<Rightarrow> jsstring \<Rightarrow> 'w \<Rightarrow> ('x + RevealResult) \<times> 'w"
  verifyReasoning :: "jsstring \<Rightarrow> 't \<Rightarrow> 'w \<Rightarrow> ('x + VerifyResult) \<times> 'w"
  getAccountability :: "PublicKey \<Rightarrow> 'w \<Rightarrow> ('x + real option) \<times> 'w"
  getAgentCommitments :: "PublicKey \<Rightarrow> int \<Rightarrow> 'w \<Rightarrow> ('x + 'h) \<times> 'w"
  Date_now :: "nat \<Rightarrow> int"
  toISOString :: "int \<Rightarrow> jsstring"

subsection \<open>The class and its state\<close>

record Timestamps =
  committed :: int
  executed :: int
  revealed :: int

record 'a AuditedActionResult =
  reasoning :: TreasuryReasoning
  commit :: CommitResult
  reveal :: RevealResult
  actionResult :: 'a
  explorerUrl :: jsstring
  timestamps :: Timestamps

record SolprismIntegrationConfig =
  rpcUrl :: "jsstring option"
  programId :: "jsstring option"
  agentName :: jsstring
  reasoningStorageUri :: "jsstring option"
  autoRegister :: "bool option"

definition SOLPRISM_PROGRAM_ID :: jsstring where
  "SOLPRISM_PROGRAM_ID = js ''CZcvoryaQNrtZ3qb3gC1h9opcYpzEP1D9Mu1RVwFQeBu''"

definition SOLPRISM_EXPLORER :: jsstring where
  "SOLPRISM_EXPLORER = js ''https://www.solprism.app''"

definition DEFAULT_RPC :: jsstring where
  "DEFAULT_RPC = js ''https://api.devnet.solana.com''"

text \<open>
  Arrays and result objects are JavaScript objects with an identity: they live in a
  store, and a variable holds a reference, the index of the object in the store. The
  private field \<^verbatim>\<open>actionLog\<close> is a reference to an array of references to result
  objects. The state also holds the outside world, the calls made so far and the
  number of clock readings taken.
\<close>

type_synonym ref = nat

record ('w, 'a, 't) SolprismTreasury =
  config :: SolprismIntegrationConfig
  wallet :: "Keypair option"
  registered :: bool
  actionLog :: ref
  arrays :: "ref list list"
  objects :: "'a AuditedActionResult list"
  world :: 'w
  calls :: "'t call list"
  ticks :: nat

text \<open>One external call: it runs on the world and is recorded.\<close>

definition external ::
  "'t call \<Rightarrow> ('w \<Rightarrow> 'r \<times> 'w) \<Rightarrow> ('w, 'a, 't) SolprismTreasury
     \<Rightarrow> 'r \<times> ('w, 'a, 't) SolprismTreasury" where
  "external c f s =
     (case f (world s) of (r, w') \<Rightarrow> (r, s\<lparr>world := w', calls := calls s @ [c]\<rparr>))"

text \<open>\<^verbatim>\<open>new Date()\<close>.\<close>

definition new_Date ::
  "('w, 'x, 't, 'h) env \<Rightarrow> ('w, 'a, 't) SolprismTreasury
     \<Rightarrow> int \<times> ('w, 'a, 't) SolprismTreasury" where
  "new_Date env s = (Date_now env (ticks s), s\<lparr>ticks := Suc (ticks s)\<rparr>)"

text \<open>Creating an object, and \<^verbatim>\<open>Array.prototype.push\<close> on the array at a reference.\<close>

definition new_object ::
  "'a AuditedActionResult \<Rightarrow> ('w, 'a, 't) SolprismTreasury
     \<Rightarrow> ref \<times> ('w, 'a, 't) SolprismTreasury" where
  "new_object v s = (length (objects s), s\<lparr>objects := objects s @ [v]\<rparr>)"

definition new_array ::
  "ref list \<Rightarrow> ('w, 'a, 't) SolprismTreasury \<Rightarrow> ref \<times> ('w, 'a, 't) SolprismTreasury" where
  "new_array xs s = (length (arrays s), s\<lparr>arrays := arrays s @ [xs]\<rparr>)"

definition array_push ::
  "ref \<Rightarrow> ref \<Rightarrow> ('w, 'a, 't) SolprismTreasury \<Rightarrow> ('w, 'a, 't) SolprismTreasury" where
  "array_push a r s = s\<lparr>arrays := (arrays s)[a := arrays s ! a @ [r]]\<rparr>"

text \<open>
  The constructor: the defaults, overridden by what the caller's configuration has.
  The client that the source builds from the connection is the environment's.
\<close>

definition constructor ::
  "SolprismIntegrationConfig \<Rightarrow> 'w \<Rightarrow> ('w, 'a, 't) SolprismTreasury" where
  "constructor cfg w =
     \<lparr> config = cfg
         \<lparr> rpcUrl := Some (case rpcUrl cfg of None \<Rightarrow> DEFAULT_RPC | Some u \<Rightarrow> u),
           programId := Some (case programId cfg of None \<Rightarrow> SOLPRISM_PROGRAM_ID | Some p \<Rightarrow> p),
           autoRegister := Some (case autoRegister cfg of None \<Rightarrow> True | Some b \<Rightarrow> b) \<rparr>,
       wallet = None,
       registered = False,
       actionLog = 0,
       arrays = [[]],
       objects = [],
       world = w,
       calls = [],
       ticks = 0 \<rparr>"

text \<open>
  \<^verbatim>\<open>initialize\<close>: the wallet is stored first; a rejection of either client call
  leaves it stored.
\<close>

definition initialize ::
  "('w, 'x, 't, 'h) env \<Rightarrow> ('w, 'a, 't) SolprismTreasury \<Rightarrow> Keypair
     \<Rightarrow> ('x exn + unit) \<times> ('w, 'a, 't) SolprismTreasury" where
  "initialize env s0 w =
     (let s1 = s0\<lparr>wallet := Some w\<rparr> in
      if autoRegister (config s1) = Some True then
        (case external (Call_isAgentRegistered (publicKey w))
                (isAgentRegistered env (publicKey w)) s1 of
           (Inl x, s2) \<Rightarrow> (Inl (Thrown x), s2)
         | (Inr isRegistered, s2) \<Rightarrow>
             if \<not> isRegistered then
               (case external (Call_registerAgent w (agentName (config s2)))
                       (registerAgent env w (agentName (config s2))) s2 of
                  (Inl x, s3) \<Rightarrow> (Inl (Thrown x), s3)
                | (Inr _, s3) \<Rightarrow> (Inr (), s3\<lparr>registered := True\<rparr>))
             else (Inr (), s2\<lparr>registered := True\<rparr>))
      else (Inr (), s1))"

definition isReady :: "('w, 'a, 't) SolprismTreasury \<Rightarrow> bool" where
  "isReady s = (wallet s \<noteq> None \<and> registered s)"

definition NotInitialized_message :: jsstring where
  "NotInitialized_message =
     js ''SolprismTreasury not initialized. Call initialize(wallet) first.''"

abbreviation NotInitialized :: "'x exn" where
  "NotInitialized \<equiv> Error NotInitialized_message"

definition ensureReady :: "('w, 'a, 't) SolprismTreasury \<Rightarrow> 'x exn + unit" where
  "ensureReady s = (if wallet s = None then Inl NotInitialized else Inr ())"

definition buildExplorerUrl :: "jsstring \<Rightarrow> jsstring" where
  "buildExplorerUrl commitmentAddress' =
     SOLPRISM_EXPLORER @ js ''/commitment/'' @ commitmentAddress'"

text \<open>
  \<^verbatim>\<open>if (this.config.reasoningStorageUri)\<close> tests the truthiness of an optional
  string: \<^verbatim>\<open>undefined\<close> and the empty string are both falsy.
\<close>

definition buildReasoningUri ::
  "('w, 'a, 't) SolprismTreasury \<Rightarrow> TreasuryReasoning \<Rightarrow> CommitResult \<Rightarrow> jsstring" where
  "buildReasoningUri s reasoning' commit' =
     (case reasoningStorageUri (config s) of
        Some uri \<Rightarrow>
          if uri \<noteq> [] then uri @ js ''/'' @ commitmentHash commit'
          else SOLPRISM_EXPLORER @ js ''/commitment/'' @ commitmentAddress commit'
      | None \<Rightarrow> SOLPRISM_EXPLORER @ js ''/commitment/'' @ commitmentAddress commit')"

subsection \<open>Audited execution\<close>

text \<open>
  \<^verbatim>\<open>executeAudited\<close>. The caller's action is a function on the outside world that
  throws or rejects with a value (\<open>Inl\<close>) or resolves with a result (\<open>Inr\<close>); it
  does not call back into this object. The result of the method is the error thrown
  or the reference of the result object. The \<^verbatim>\<open>console\<close> output is left out.
\<close>

definition executeAudited ::
  "('w, 'x, 't, 'h) env \<Rightarrow> ('w, 'a, 't) SolprismTreasury \<Rightarrow> TreasuryReasoning
     \<Rightarrow> ('w \<Rightarrow> ('x + 'a) \<times> 'w) \<Rightarrow> ('x exn + ref) \<times> ('w, 'a, 't) SolprismTreasury" where
  "executeAudited env s0 reasoning' action' =
     (case ensureReady s0 of
        Inl e \<Rightarrow> (Inl e, s0)
      | Inr _ \<Rightarrow>
         (let trace = toReasoningTrace (createReasoningTrace env) reasoning';
              (d0, s1) = new_Date env s0;
              (d1, s2) = new_Date env s1;
              (d2, s3) = new_Date env s2;
              timestamps0 = \<lparr>committed = d0, executed = d1, revealed = d2\<rparr>
          in
          (case external (Call_commitReasoning (the (wallet s3)) trace)
                  (commitReasoning env (the (wallet s3)) trace) s3 of
             (Inl x, s4) \<Rightarrow> (Inl (Thrown x), s4)
           | (Inr commit', s4) \<Rightarrow>
              (let (d3, s5) = new_Date env s4;
                   timestamps1 = timestamps0\<lparr>committed := d3\<rparr>;
                   (settled, s6) = external Call_action action' s5;
                   (d4, s7) = new_Date env s6;
                   timestamps2 = timestamps1\<lparr>executed := d4\<rparr>
               in
               (case settled of
                  Inl error \<Rightarrow> (Inl (Thrown error), s7)
                | Inr actionResult' \<Rightarrow>
                   (let reasoningUri' = buildReasoningUri s7 reasoning' commit' in
                    (case external
                            (Call_revealReasoning (the (wallet s7))
                               (commitmentAddress commit') reasoningUri')
                            (revealReasoning env (the (wallet s7))
                               (commitmentAddress commit') reasoningUri') s7 of
                       (Inl x, s8) \<Rightarrow> (Inl (Thrown x), s8)
                     | (Inr reveal', s8) \<Rightarrow>
                        (let (d5, s9) = new_Date env s8;
                             timestamps3 = timestamps2\<lparr>revealed := d5\<rparr>;
                             result =
                               \<lparr> reasoning = reasoning',
                                 commit = commit',
                                 reveal = reveal',
                                 actionResult = actionResult',
                                 explorerUrl = buildExplorerUrl (commitmentAddress commit'),
                                 timestamps = timestamps3 \<rparr>;
                             (r, s10) = new_object result s9
                         in (Inr r, array_push (actionLog s10) r s10)))))))))"

subsection \<open>Verification and audit\<close>

definition verifyAction ::
  "('w, 'x, 't, 'h) env \<Rightarrow> ('w, 'a, 't) SolprismTreasury \<Rightarrow> jsstring \<Rightarrow> TreasuryReasoning
     \<Rightarrow> ('x exn + bool \<times> jsstring \<times> jsstring) \<times> ('w, 'a, 't) SolprismTreasury" where
  "verifyAction env s commitmentAddress' reasoning' =
     (let trace = toReasoningTrace (createReasoningTrace env) reasoning' in
      case external (Call_verifyReasoning commitmentAddress' trace)
             (verifyReasoning env commitmentAddress' trace) s of
        (Inl x, s1) \<Rightarrow> (Inl (Thrown x), s1)
      | (Inr result, s1) \<Rightarrow>
          (Inr (valid result, message result, buildExplorerUrl commitmentAddress'), s1))"

definition getAccountabilityScore ::
  "('w, 'x, 't, 'h) env \<Rightarrow> ('w, 'a, 't) SolprismTreasury
     \<Rightarrow> ('x exn + real option) \<times> ('w, 'a, 't) SolprismTreasury" where
  "getAccountabilityScore env s =
     (case ensureReady s of
        Inl e \<Rightarrow> (Inl e, s)
      | Inr _ \<Rightarrow>
         (case external (Call_getAccountability (publicKey (the (wallet s))))
                 (getAccountability env (publicKey (the (wallet s)))) s of
            (Inl x, s1) \<Rightarrow> (Inl (Thrown x), s1)
          | (Inr score, s1) \<Rightarrow> (Inr score, s1)))"

text \<open>\<^verbatim>\<open>getAuditHistory(limit = 50)\<close>: a missing argument is \<open>None\<close>.\<close>

definition getAuditHistory ::
  "('w, 'x, 't, 'h) env \<Rightarrow> ('w, 'a, 't) SolprismTreasury \<Rightarrow> int option
     \<Rightarrow> ('x exn + 'h) \<times> ('w, 'a, 't) SolprismTreasury" where
  "getAuditHistory env s limit' =
     (let limit = (case limit' of None \<Rightarrow> 50 | Some l \<Rightarrow> l) in
      case ensureReady s of
        Inl e \<Rightarrow> (Inl e, s)
      | Inr _ \<Rightarrow>
         (case external (Call_getAgentCommitments (publicKey (the (wallet s))) limit)
                 (getAgentCommitments env (publicKey (the (wallet s))) limit) s of
            (Inl x, s1) \<Rightarrow> (Inl (Thrown x), s1)
          | (Inr history, s1) \<Rightarrow> (Inr history, s1)))"

text \<open>
  \<^verbatim>\<open>getSessionLog\<close>: \<^verbatim>\<open>[...this.actionLog]\<close> creates a new array with the same
  elements, the references of the ledger's own result objects.
\<close>

definition getSessionLog ::
  "('w, 'a, 't) SolprismTreasury \<Rightarrow> ref \<times> ('w, 'a, 't) SolprismTreasury" where
  "getSessionLog s = new_array (arrays s ! actionLog s) s"

text \<open>The lines that the loop of \<^verbatim>\<open>formatAuditReport\<close> pushes for one entry.\<close>

definition entry_lines ::
  "('w, 'x, 't, 'h) env \<Rightarrow> 'a AuditedActionResult \<Rightarrow> jsstring list" where
  "entry_lines env entry =
     [ js ''  '' @ [0x250C, 0x2500] @ js '' ''
         @ toUpperCase (TreasuryActionType_string (action (reasoning entry))),
       js ''  '' @ [0x2502] @ js ''  Rationale: '' @ rationale (reasoning entry),
       js ''  '' @ [0x2502] @ js ''  Risk: ''
         @ RiskLevel_string (level (risk (reasoning entry)))
         @ js '' ('' @ join (js '', '') (factors (risk (reasoning entry))) @ js '')'',
       js ''  '' @ [0x2502] @ js ''  Expected: '' @ expectedOutcome (reasoning entry),
       js ''  '' @ [0x2502] @ js ''  Commitment: ''
         @ slice0 16 (commitmentHash (commit entry)) @ js ''...'',
       js ''  '' @ [0x2502] @ js ''  Explorer: '' @ explorerUrl entry,
       js ''  '' @ [0x2514, 0x2500] @ js '' Committed ''
         @ toISOString env (committed (timestamps entry)),
       [] ]"

text \<open>The \<^verbatim>\<open>for ... of\<close> loop over the ledger, pushing onto \<^verbatim>\<open>lines\<close>.\<close>

fun report_loop ::
  "('w, 'x, 't, 'h) env \<Rightarrow> 'a AuditedActionResult list \<Rightarrow> ref list \<Rightarrow> jsstring list
     \<Rightarrow> jsstring list" where
  "report_loop env objs [] lines = lines"
| "report_loop env objs (r # rs) lines =
     report_loop env objs rs (lines @ entry_lines env (objs ! r))"

definition rule51 :: jsstring where
  "rule51 = replicate 51 0x2550"

definition formatAuditReport ::
  "('w, 'x, 't, 'h) env \<Rightarrow> ('w, 'a, 't) SolprismTreasury \<Rightarrow> jsstring" where
  "formatAuditReport env s =
     (let log = arrays s ! actionLog s in
      if length log = 0 then js ''No audited actions in this session.''
      else
        let lines0 =
              [ rule51,
                js ''  SOLPRISM Audit Report '' @ [0x2014] @ js '' Agent Treasury Manager'',
                rule51,
                [],
                js ''  Agent: '' @ agentName (config s),
                js ''  Actions: '' @ String_of_nat (length log),
                js ''  Session: ''
                  @ toISOString env (committed (timestamps (objects s ! (log ! 0)))),
                [] ];
            lines1 = report_loop env (objects s) log lines0;
            lines2 =
              lines1
              @ [ rule51,
                  js ''  Verify any action: https://www.solprism.app/'',
                  rule51 ]
        in join [10] lines2)"

subsection \<open>The store as the caller sees it\<close>

text \<open>
  The records of the ledger, in order: the result objects that the elements of the
  array \<^verbatim>\<open>actionLog\<close> refer to.
\<close>

definition sessionLog :: "('w, 'a, 't) SolprismTreasury \<Rightarrow> 'a AuditedActionResult list" where
  "sessionLog s = map (\<lambda>r. objects s ! r) (arrays s ! actionLog s)"

text \<open>
  The invariant of the store: \<^verbatim>\<open>actionLog\<close> refers to an array of the store, and
  its elements to objects of the store.
\<close>

definition store_ok :: "('w, 'a, 't) SolprismTreasury \<Rightarrow> bool" where
  "store_ok s =
     (actionLog s < length (arrays s)
      \<and> (\<forall>r \<in> set (arrays s ! actionLog s). r < length (objects s)))"

text \<open>
  What a caller can do with a reference it holds. With the reference of an array it
  can give the array any contents (\<^verbatim>\<open>push\<close>, \<^verbatim>\<open>pop\<close>, \<^verbatim>\<open>splice\<close>,
  \<^verbatim>\<open>a[i] = v\<close>, \<^verbatim>\<open>a.length = n\<close>); with the reference of a result object it can
  write the object's fields.
\<close>

definition array_assign ::
  "ref \<Rightarrow> ref list \<Rightarrow> ('w, 'a, 't) SolprismTreasury \<Rightarrow> ('w, 'a, 't) SolprismTreasury" where
  "array_assign a xs s = s\<lparr>arrays := (arrays s)[a := xs]\<rparr>"

definition object_assign ::
  "ref \<Rightarrow> 'a AuditedActionResult \<Rightarrow> ('w, 'a, 't) SolprismTreasury
     \<Rightarrow> ('w, 'a, 't) SolprismTreasury" where
  "object_assign r v s = s\<lparr>objects := (objects s)[r := v]\<rparr>"

subsection \<open>An example run\<close>

text \<open>
  A client whose calls all resolve, over a world that counts the transactions sent;
  the clock advances by one millisecond at each reading. The theorems below are
  instantiated with it.
\<close>

definition example_wallet :: Keypair where
  "example_wallet = \<lparr>publicKey = PublicKey (js ''AgentPubkey''), secretKey = [1, 2, 3]\<rparr>"

definition example_commit :: CommitResult where
  "example_commit =
     \<lparr> signature = js ''sig-commit'',
       commitmentAddress = js ''Cmt111'',
       commitmentHash = js ''a3f8c9d1e2b7a3f8c9d1e2b7'' \<rparr>"

definition example_env :: "(nat, jsstring, TraceInput, CommitResult list) env" where
  "example_env =
     \<lparr> createReasoningTrace = (\<lambda>t. t),
       isAgentRegistered = (\<lambda>p w. (Inr False, w)),
       registerAgent = (\<lambda>k n w. (Inr (), Suc w)),
       commitReasoning = (\<lambda>k t w. (Inr example_commit, Suc w)),
       revealReasoning =
         (\<lambda>k a u w. (Inr \<lparr>revealSignature = js ''sig-reveal'', reasoningUri = u\<rparr>, Suc w)),
       verifyReasoning = (\<lambda>a t w. (Inr \<lparr>valid = True, message = js ''match''\<rparr>, w)),
       getAccountability = (\<lambda>p w. (Inr (Some 100), w)),
       getAgentCommitments = (\<lambda>p l w. (Inr [example_commit], w)),
       Date_now = (\<lambda>i. 1000 + int i),
       toISOString = (\<lambda>t. String_of_nat (nat t)) \<rparr>"

definition example_config :: SolprismIntegrationConfig where
  "example_config =
     \<lparr> rpcUrl = None,
       programId = None,
       agentName = js ''Skippy Treasury Agent'',
       reasoningStorageUri = None,
       autoRegister = None \<rparr>"

definition example_reasoning :: TreasuryReasoning where
  "example_reasoning =
     \<lparr> action = Rebalance,
       rationale = js ''SOL allocation drifted to 68%'',
       risk = \<lparr>level = Low, factors = [js ''Small position adjustment'', js ''High liquidity'']\<rparr>,
       expectedOutcome = js ''Portfolio returns to 50/50'',
       portfolioContext =
         Some \<lparr>totalValueUSD = 15000, positions = [(js ''SOL'', 68 / 100), (js ''USDC'', 32 / 100)]\<rparr>,
       constraints = None \<rparr>"

definition example_action :: "nat \<Rightarrow> (jsstring + jsstring) \<times> nat" where
  "example_action w = (Inr (js ''ok''), Suc w)"

definition failing_action :: "nat \<Rightarrow> (jsstring + jsstring) \<times> nat" where
  "failing_action w = (Inl (js ''insufficient funds''), w)"

text \<open>The object after \<^verbatim>\<open>new SolprismTreasury(config)\<close> and \<^verbatim>\<open>initialize(wallet)\<close>.\<close>

definition example_treasury :: "(nat, jsstring, TraceInput) SolprismTreasury" where
  "example_treasury = snd (initialize example_env (constructor example_config 0) example_wallet)"

text \<open>The same with \<^verbatim>\<open>autoRegister: false\<close>, and with an empty storage URI.\<close>

definition unregistered_treasury :: "(nat, jsstring, TraceInput) SolprismTreasury" where
  "unregistered_treasury =
     snd (initialize example_env
            (constructor (example_config\<lparr>autoRegister := Some False\<rparr>) 0) example_wallet)"

definition empty_uri_treasury :: "(nat, jsstring, TraceInput) SolprismTreasury" where
  "empty_uri_treasury =
     snd (initialize example_env
            (constructor (example_config\<lparr>reasoningStorageUri := Some []\<rparr>) 0) example_wallet)"

text \<open>The example object after one audited action.\<close>

definition example_after_one :: "(nat, jsstring, TraceInput) SolprismTreasury" where
  "example_after_one =
     snd (executeAudited example_env example_treasury example_reasoning example_action)"

text \<open>Clients whose commit call, or whose reveal call, rejects.\<close>

definition rejecting_commit_env :: "(nat, jsstring, TraceInput, CommitResult list) env" where
  "rejecting_commit_env =
     example_env\<lparr>commitReasoning := (\<lambda>k t w. (Inl (js ''rpc unreachable''), w))\<rparr>"

definition rejecting_reveal_env :: "(nat, jsstring, TraceInput, CommitResult list) env" where
  "rejecting_reveal_env =
     example_env\<lparr>revealReasoning := (\<lambda>k a u w. (Inl (js ''reveal rejected''), w))\<rparr>"

text \<open>The object right after \<^verbatim>\<open>new SolprismTreasury(config)\<close>.\<close>

definition fresh_treasury :: "(nat, jsstring, TraceInput) SolprismTreasury" where
  "fresh_treasury = constructor example_config 0"


text \<open>The example object configured with a storage URI.\<close>

definition storage_uri_treasury :: "(nat, jsstring, TraceInput) SolprismTreasury" where
  "storage_uri_treasury =
     snd (initialize example_env
            (constructor (example_config\<lparr>reasoningStorageUri := Some (js ''ipfs://store'')\<rparr>) 0)
            example_wallet)"

text \<open>
  A caller that takes the session log and writes a field of its first element:
  \<^verbatim>\<open>const log = t.getSessionLog(); log[0].explorerUrl = 'tampered'\<close>.
\<close>

definition tampered_treasury :: "(nat, jsstring, TraceInput) SolprismTreasury" where
  "tampered_treasury =
     (case getSessionLog example_after_one of
        (a, s1) \<Rightarrow>
          object_assign (arrays s1 ! a ! 0)
            ((objects s1 ! (arrays s1 ! a ! 0))\<lparr>explorerUrl := js ''tampered''\<rparr>) s1)"

section \<open>Properties\<close>

subsection \<open>The paths through \<^verbatim>\<open>executeAudited\<close>\<close>

text \<open>
  One lemma for each way the method can end, giving the result and the whole state
  afterwards. \<open>w1\<close>, \<open>w2\<close> and \<open>w3\<close> are the outside world after the commit
  call, the action and the reveal call.
\<close>

lemma executeAudited_no_wallet:
  "wallet s = None \<Longrightarrow> executeAudited env s r act = (Inl NotInitialized, s)"
  by (simp add: executeAudited_def ensureReady_def)

lemma executeAudited_commit_rejects:
  assumes "wallet s = Some k"
    and "commitReasoning env k (toReasoningTrace (createReasoningTrace env) r) (world s)
           = (Inl x, w1)"
  shows "executeAudited env s r act =
     (Inl (Thrown x),
      s\<lparr>world := w1,
        calls := calls s
          @ [Call_commitReasoning k (toReasoningTrace (createReasoningTrace env) r)],
        ticks := ticks s + 3\<rparr>)"
  using assms
  by (simp add: executeAudited_def ensureReady_def new_Date_def external_def Let_def)

lemma executeAudited_action_throws:
  assumes "wallet s = Some k"
    and "commitReasoning env k (toReasoningTrace (createReasoningTrace env) r) (world s)
           = (Inr c, w1)"
    and "act w1 = (Inl x, w2)"
  shows "executeAudited env s r act =
     (Inl (Thrown x),
      s\<lparr>world := w2,
        calls := calls s
          @ [Call_commitReasoning k (toReasoningTrace (createReasoningTrace env) r),
             Call_action],
        ticks := ticks s + 5\<rparr>)"
  using assms
  by (simp add: executeAudited_def ensureReady_def new_Date_def external_def Let_def)

lemma executeAudited_reveal_rejects:
  assumes "wallet s = Some k"
    and "commitReasoning env k (toReasoningTrace (createReasoningTrace env) r) (world s)
           = (Inr c, w1)"
    and "act w1 = (Inr v, w2)"
    and "revealReasoning env k (commitmentAddress c) (buildReasoningUri s r c) w2
           = (Inl x, w3)"
  shows "executeAudited env s r act =
     (Inl (Thrown x),
      s\<lparr>world := w3,
        calls := calls s
          @ [Call_commitReasoning k (toReasoningTrace (createReasoningTrace env) r),
             Call_action,
             Call_revealReasoning k (commitmentAddress c) (buildReasoningUri s r c)],
        ticks := ticks s + 5\<rparr>)"
  using assms
  by (simp add: executeAudited_def ensureReady_def new_Date_def external_def Let_def
      buildReasoningUri_def)

lemma executeAudited_resolves:
  assumes "wallet s = Some k"
    and "commitReasoning env k (toReasoningTrace (createReasoningTrace env) r) (world s)
           = (Inr c, w1)"
    and "act w1 = (Inr v, w2)"
    and "revealReasoning env k (commitmentAddress c) (buildReasoningUri s r c) w2
           = (Inr rv, w3)"
  shows "executeAudited env s r act =
     (Inr (length (objects s)),
      s\<lparr>world := w3,
        calls := calls s
          @ [Call_commitReasoning k (toReasoningTrace (createReasoningTrace env) r),
             Call_action,
             Call_revealReasoning k (commitmentAddress c) (buildReasoningUri s r c)],
        ticks := ticks s + 6,
        objects := objects s
          @ [\<lparr> reasoning = r, commit = c, reveal = rv, actionResult = v,
               explorerUrl = buildExplorerUrl (commitmentAddress c),
               timestamps =
                 \<lparr> committed = Date_now env (ticks s + 3),
                   executed = Date_now env (ticks s + 4),
                   revealed = Date_now env (ticks s + 5) \<rparr> \<rparr>],
        arrays := (arrays s)[actionLog s := arrays s ! actionLog s @ [length (objects s)]]\<rparr>)"
  using assms
  by (simp add: executeAudited_def ensureReady_def new_Date_def external_def Let_def
      buildReasoningUri_def new_object_def array_push_def eval_nat_numeral)

subsection \<open>The invariant of the store\<close>

text \<open>
  The constructor establishes \<open>store_ok\<close> and every method keeps it, so it holds
  of every object a caller can have.
\<close>

lemma store_ok_constructor: "store_ok (constructor cfg w)"
  by (simp add: store_ok_def constructor_def)

lemma store_ok_initialize: "store_ok s \<Longrightarrow> store_ok (snd (initialize env s k))"
  by (auto simp add: store_ok_def initialize_def external_def Let_def
      split: prod.splits sum.splits)

lemma store_ok_getSessionLog: "store_ok s \<Longrightarrow> store_ok (snd (getSessionLog s))"
  by (simp add: store_ok_def getSessionLog_def new_array_def nth_append)

lemma store_ok_executeAudited:
  "store_ok s \<Longrightarrow> store_ok (snd (executeAudited env s r act))"
  by (auto simp add: store_ok_def executeAudited_def ensureReady_def new_Date_def
      external_def Let_def new_object_def array_push_def less_Suc_eq
      split: prod.splits sum.splits)

subsection \<open>The example objects\<close>

lemma example_treasury_eq:
  "example_treasury =
     \<lparr> config = example_config
         \<lparr>rpcUrl := Some DEFAULT_RPC, programId := Some SOLPRISM_PROGRAM_ID,
          autoRegister := Some True\<rparr>,
       wallet = Some example_wallet, registered = True, actionLog = 0,
       arrays = [[]], objects = [], world = 1,
       calls = [Call_isAgentRegistered (publicKey example_wallet),
                Call_registerAgent example_wallet (agentName example_config)],
       ticks = 0 \<rparr>"
  by (simp add: example_treasury_def initialize_def constructor_def external_def
      example_env_def example_config_def)

lemma unregistered_treasury_eq:
  "unregistered_treasury =
     \<lparr> config = example_config
         \<lparr>rpcUrl := Some DEFAULT_RPC, programId := Some SOLPRISM_PROGRAM_ID,
          autoRegister := Some False\<rparr>,
       wallet = Some example_wallet, registered = False, actionLog = 0,
       arrays = [[]], objects = [], world = 0, calls = [], ticks = 0 \<rparr>"
  by (simp add: unregistered_treasury_def initialize_def constructor_def external_def
      example_env_def example_config_def)

lemma empty_uri_treasury_eq:
  "empty_uri_treasury =
     \<lparr> config = example_config
         \<lparr>rpcUrl := Some DEFAULT_RPC, programId := Some SOLPRISM_PROGRAM_ID,
          reasoningStorageUri := Some [], autoRegister := Some True\<rparr>,
       wallet = Some example_wallet, registered = True, actionLog = 0,
       arrays = [[]], objects = [], world = 1,
       calls = [Call_isAgentRegistered (publicKey example_wallet),
                Call_registerAgent example_wallet (agentName example_config)],
       ticks = 0 \<rparr>"
  by (simp add: empty_uri_treasury_def initialize_def constructor_def external_def
      example_env_def example_config_def)

lemma storage_uri_treasury_eq:
  "storage_uri_treasury =
     \<lparr> config = example_config
         \<lparr>rpcUrl := Some DEFAULT_RPC, programId := Some SOLPRISM_PROGRAM_ID,
          reasoningStorageUri := Some (js ''ipfs://store''), autoRegister := Some True\<rparr>,
       wallet = Some example_wallet, registered = True, actionLog = 0,
       arrays = [[]], objects = [], world = 1,
       calls = [Call_isAgentRegistered (publicKey example_wallet),
                Call_registerAgent example_wallet (agentName example_config)],
       ticks = 0 \<rparr>"
  by (simp add: storage_uri_treasury_def initialize_def constructor_def external_def
      example_env_def example_config_def)

lemma objects_example_treasury: "objects example_treasury = []"
  by (simp add: example_treasury_eq)

lemma example_run:
  "executeAudited example_env example_treasury example_reasoning example_action
     = (Inr 0, example_after_one)"
proof -
  have h2: "wallet example_treasury = Some example_wallet"
    by (simp add: example_treasury_eq)
  have h3: "commitReasoning example_env example_wallet
              (toReasoningTrace (createReasoningTrace example_env) example_reasoning)
              (world example_treasury) = (Inr example_commit, 2)"
    by (simp add: example_env_def example_treasury_eq)
  have h4: "example_action 2 = (Inr (js ''ok''), 3)"
    by (simp add: example_action_def)
  have h5: "revealReasoning example_env example_wallet (commitmentAddress example_commit)
              (buildReasoningUri example_treasury example_reasoning example_commit) 3
            = (Inr \<lparr>revealSignature = js ''sig-reveal'',
                    reasoningUri =
                      buildReasoningUri example_treasury example_reasoning example_commit\<rparr>, 4)"
    by (simp add: example_env_def)
  have "fst (executeAudited example_env example_treasury example_reasoning example_action)
        = Inr 0"
    by (simp add: executeAudited_resolves [where act = example_action, OF h2 h3 h4 h5]
        objects_example_treasury)
  then show ?thesis
    by (simp add: example_after_one_def prod_eq_iff)
qed

lemma example_after_one_eq:
  "example_after_one =
     \<lparr> config = example_config
         \<lparr>rpcUrl := Some DEFAULT_RPC, programId := Some SOLPRISM_PROGRAM_ID,
          autoRegister := Some True\<rparr>,
       wallet = Some example_wallet, registered = True, actionLog = 0,
       arrays = [[0]],
       objects =
         [\<lparr> reasoning = example_reasoning, commit = example_commit,
             reveal = \<lparr>revealSignature = js ''sig-reveal'',
                       reasoningUri = js ''https://www.solprism.app/commitment/Cmt111''\<rparr>,
             actionResult = js ''ok'',
             explorerUrl = js ''https://www.solprism.app/commitment/Cmt111'',
             timestamps = \<lparr>committed = 1003, executed = 1004, revealed = 1005\<rparr> \<rparr>],
       world = 4,
       calls = [Call_isAgentRegistered (publicKey example_wallet),
                Call_registerAgent example_wallet (agentName example_config),
                Call_commitReasoning example_wallet (traceInput example_reasoning),
                Call_action,
                Call_revealReasoning example_wallet (js ''Cmt111'')
                  (js ''https://www.solprism.app/commitment/Cmt111'')],
       ticks = 6 \<rparr>"
proof -
  have h2: "wallet example_treasury = Some example_wallet"
    by (simp add: example_treasury_eq)
  have h3: "commitReasoning example_env example_wallet
              (toReasoningTrace (createReasoningTrace example_env) example_reasoning)
              (world example_treasury) = (Inr example_commit, 2)"
    by (simp add: example_env_def example_treasury_eq)
  have h4: "example_action 2 = (Inr (js ''ok''), 3)"
    by (simp add: example_action_def)
  have h5: "revealReasoning example_env example_wallet (commitmentAddress example_commit)
              (buildReasoningUri example_treasury example_reasoning example_commit) 3
            = (Inr \<lparr>revealSignature = js ''sig-reveal'',
                    reasoningUri =
                      buildReasoningUri example_treasury example_reasoning example_commit\<rparr>, 4)"
    by (simp add: example_env_def)
  have uri: "buildReasoningUri example_treasury example_reasoning example_commit
             = js ''https://www.solprism.app/commitment/Cmt111''"
    by (simp add: buildReasoningUri_def example_treasury_eq example_config_def
        example_commit_def SOLPRISM_EXPLORER_def js_def)
  have ex: "buildExplorerUrl (js ''Cmt111'')
             = js ''https://www.solprism.app/commitment/Cmt111''"
    by (simp add: buildExplorerUrl_def SOLPRISM_EXPLORER_def js_def)
  have ad: "commitmentAddress example_commit = js ''Cmt111''"
    by (simp add: example_commit_def)
  have tr: "toReasoningTrace (createReasoningTrace example_env) example_reasoning
            = traceInput example_reasoning"
    by (simp add: toReasoningTrace_def example_env_def)
  have dn: "Date_now example_env = (\<lambda>i. 1000 + int i)"
    by (simp add: example_env_def)
  have "example_after_one =
      example_treasury
      \<lparr>world := 4,
        calls := calls example_treasury
          @ [Call_commitReasoning example_wallet (traceInput example_reasoning),
             Call_action,
             Call_revealReasoning example_wallet (js ''Cmt111'')
               (js ''https://www.solprism.app/commitment/Cmt111'')],
        ticks := ticks example_treasury + 6,
        objects := objects example_treasury
          @ [\<lparr> reasoning = example_reasoning, commit = example_commit,
               reveal = \<lparr>revealSignature = js ''sig-reveal'',
                       reasoningUri = js ''https://www.solprism.app/commitment/Cmt111''\<rparr>,
               actionResult = js ''ok'',
               explorerUrl = js ''https://www.solprism.app/commitment/Cmt111'',
               timestamps =
                 \<lparr> committed = 1000 + int (ticks example_treasury + 3),
                   executed = 1000 + int (ticks example_treasury + 4),
                   revealed = 1000 + int (ticks example_treasury + 5) \<rparr> \<rparr>],
        arrays := (arrays example_treasury)
          [actionLog example_treasury :=
             arrays example_treasury ! actionLog example_treasury
             @ [length (objects example_treasury)]]\<rparr>"
    unfolding example_after_one_def
      executeAudited_resolves [where act = example_action, OF h2 h3 h4 h5] uri ex ad tr dn
    by (simp only: snd_conv)
  then show ?thesis
    by (simp add: example_treasury_eq)
qed

lemma store_ok_example_after_one: "store_ok example_after_one"
  by (simp add: store_ok_def example_after_one_eq)

lemma tampered_treasury_eq:
  "tampered_treasury =
     example_after_one
     \<lparr>arrays := [[0], [0]],
      objects := [(objects example_after_one ! 0)\<lparr>explorerUrl := js ''tampered''\<rparr>]\<rparr>"
  by (simp add: tampered_treasury_def getSessionLog_def new_array_def object_assign_def
      example_after_one_eq)

lemma buildExplorerUrl_contains: "sublist a (buildExplorerUrl a)"
proof -
  have "buildExplorerUrl a = (SOLPRISM_EXPLORER @ js ''/commitment/'') @ a"
    by (simp add: buildExplorerUrl_def)
  then show ?thesis
    by (simp only: sublist_append_leftI)
qed

subsection \<open>The reasoning formatter\<close>

text \<open>
  C5. \<^verbatim>\<open>toReasoningTrace\<close> is a function of the reasoning alone: it is the SDK's
  \<^verbatim>\<open>createReasoningTrace\<close> applied to a literal in which the confidence is the
  entry of the table low 90, medium 70, high 45, critical 20 for the risk level, the
  decision's reasoning is the rationale and its expected outcome the reasoning's, and
  the parameters always hold the risk level and factors and hold the portfolio value,
  the positions and the constraints exactly when the optional field is there.
\<close>

theorem toReasoningTrace_table:
  fixes reasoning :: TreasuryReasoning and crt :: "TraceInput \<Rightarrow> 't"
  defines "tr \<equiv> traceInput reasoning"
  defines "ps \<equiv> a_parameters (t_action tr)"
  shows "toReasoningTrace crt reasoning = crt tr
    \<and> (reasoning2 = reasoning \<longrightarrow>
          toReasoningTrace crt reasoning2 = toReasoningTrace crt reasoning)
    \<and> d_confidence (t_decision tr) =
        (case level (risk reasoning) of
           Low \<Rightarrow> 90 | Medium \<Rightarrow> 70 | High \<Rightarrow> 45 | Critical \<Rightarrow> 20)
    \<and> d_reasoning (t_decision tr) = rationale reasoning
    \<and> d_expectedOutcome (t_decision tr) = expectedOutcome reasoning
    \<and> a_type (t_action tr) = action reasoning
    \<and> a_description (t_action tr) = rationale reasoning
    \<and> distinct (map fst ps)
    \<and> map_of ps ''risk_level'' = Some (PString (RiskLevel_string (level (risk reasoning))))
    \<and> map_of ps ''risk_factors'' = Some (PStrings (factors (risk reasoning)))
    \<and> map_of ps ''portfolio_value_usd''
        = map_option (\<lambda>pc. PNumber (totalValueUSD pc)) (portfolioContext reasoning)
    \<and> map_of ps ''positions''
        = map_option (\<lambda>pc. PRecord (positions pc)) (portfolioContext reasoning)
    \<and> map_of ps ''constraints'' = map_option PStrings (constraints reasoning)"
  unfolding tr_def ps_def
  by (cases "portfolioContext reasoning"; cases "constraints reasoning";
      cases "level (risk reasoning)"; simp add: toReasoningTrace_def traceInput_def)

theorem toReasoningTrace_table_witness:
  "toReasoningTrace (\<lambda>t. t) example_reasoning = traceInput example_reasoning
   \<and> toReasoningTrace (\<lambda>t. t) example_reasoning = toReasoningTrace (\<lambda>t. t) example_reasoning
   \<and> d_confidence (t_decision (traceInput example_reasoning)) = 90
   \<and> map_of (a_parameters (t_action (traceInput example_reasoning))) ''portfolio_value_usd''
        = Some (PNumber 15000)
   \<and> map_of (a_parameters (t_action (traceInput example_reasoning))) ''constraints'' = None"
  using toReasoningTrace_table [of "\<lambda>t. t" example_reasoning example_reasoning]
  by (simp add: example_reasoning_def)

subsection \<open>The orchestrator\<close>

text \<open>
  C1. On an object with a wallet, when the commit call, the caller's action and the
  reveal call all succeed, \<^verbatim>\<open>executeAudited\<close> returns a result object whose
  \<^verbatim>\<open>actionResult\<close> is the value the action returned and whose \<^verbatim>\<open>explorerUrl\<close>
  contains the commitment address of the commit result; the ledger afterwards is the
  ledger before with the returned object appended at the end, one record longer.
\<close>

theorem executeAudited_success:
  assumes "store_ok s"
    and "wallet s = Some k"
    and "commitReasoning env k (toReasoningTrace (createReasoningTrace env) r) (world s)
           = (Inr c, w1)"
    and "act w1 = (Inr v, w2)"
    and "revealReasoning env k (commitmentAddress c) (buildReasoningUri s r c) w2
           = (Inr rv, w3)"
  shows "case executeAudited env s r act of
           (Inl e, s') \<Rightarrow> False
         | (Inr result, s') \<Rightarrow>
             actionResult (objects s' ! result) = v
           \<and> sublist (commitmentAddress c) (explorerUrl (objects s' ! result))
           \<and> arrays s' ! actionLog s' = arrays s ! actionLog s @ [result]
           \<and> sessionLog s' = sessionLog s @ [objects s' ! result]
           \<and> length (sessionLog s') = length (sessionLog s) + 1
           \<and> store_ok s'"
proof -
  have old: "map (\<lambda>x. (objects s @ [y]) ! x) (arrays s ! actionLog s)
           = map (\<lambda>x. objects s ! x) (arrays s ! actionLog s)" for y
    using assms(1) by (simp add: store_ok_def nth_append)
  have run: "executeAudited env s r act =
     (Inr (length (objects s)),
      s\<lparr>world := w3,
        calls := calls s
          @ [Call_commitReasoning k (toReasoningTrace (createReasoningTrace env) r),
             Call_action,
             Call_revealReasoning k (commitmentAddress c) (buildReasoningUri s r c)],
        ticks := ticks s + 6,
        objects := objects s
          @ [\<lparr> reasoning = r, commit = c, reveal = rv, actionResult = v,
               explorerUrl = buildExplorerUrl (commitmentAddress c),
               timestamps =
                 \<lparr> committed = Date_now env (ticks s + 3),
                   executed = Date_now env (ticks s + 4),
                   revealed = Date_now env (ticks s + 5) \<rparr> \<rparr>],
        arrays := (arrays s)[actionLog s := arrays s ! actionLog s @ [length (objects s)]]\<rparr>)"
    using assms(2-5) by (rule executeAudited_resolves)
  show ?thesis
    using assms(1) old
    by (auto simp add: run sessionLog_def store_ok_def buildExplorerUrl_contains less_Suc_eq)
qed

theorem executeAudited_success_witness:
  "case executeAudited example_env example_treasury example_reasoning example_action of
     (Inl e, s') \<Rightarrow> False
   | (Inr result, s') \<Rightarrow>
       actionResult (objects s' ! result) = js ''ok''
     \<and> sublist (commitmentAddress example_commit) (explorerUrl (objects s' ! result))
     \<and> arrays s' ! actionLog s' = arrays example_treasury ! actionLog example_treasury @ [result]
     \<and> sessionLog s' = sessionLog example_treasury @ [objects s' ! result]
     \<and> length (sessionLog s') = length (sessionLog example_treasury) + 1
     \<and> store_ok s'"
proof -
  have h1: "store_ok example_treasury"
    by (simp add: example_treasury_eq store_ok_def)
  have h2: "wallet example_treasury = Some example_wallet"
    by (simp add: example_treasury_eq)
  have h3: "commitReasoning example_env example_wallet
              (toReasoningTrace (createReasoningTrace example_env) example_reasoning)
              (world example_treasury) = (Inr example_commit, 2)"
    by (simp add: example_env_def example_treasury_eq)
  have h4: "example_action 2 = (Inr (js ''ok''), 3)"
    by (simp add: example_action_def)
  have h5: "revealReasoning example_env example_wallet (commitmentAddress example_commit)
              (buildReasoningUri example_treasury example_reasoning example_commit) 3
            = (Inr \<lparr>revealSignature = js ''sig-reveal'',
                    reasoningUri =
                      buildReasoningUri example_treasury example_reasoning example_commit\<rparr>, 4)"
    by (simp add: example_env_def)
  show ?thesis
    using h1 h2 h3 h4 h5 by (rule executeAudited_success)
qed



text \<open>
  C2. When the commit call succeeds and the caller's action throws, \<^verbatim>\<open>executeAudited\<close>
  throws the very value the action threw; the calls made are the commit call and the
  action, with no reveal call; the ledger is as before.
\<close>

theorem executeAudited_action_failure:
  assumes "wallet s = Some k"
    and "commitReasoning env k (toReasoningTrace (createReasoningTrace env) r) (world s)
           = (Inr c, w1)"
    and "act w1 = (Inl x, w2)"
  shows "case executeAudited env s r act of
           (result, s') \<Rightarrow>
             result = Inl (Thrown x)
           \<and> calls s' = calls s
               @ [Call_commitReasoning k (toReasoningTrace (createReasoningTrace env) r),
                  Call_action]
           \<and> actionLog s' = actionLog s
           \<and> arrays s' = arrays s
           \<and> objects s' = objects s
           \<and> sessionLog s' = sessionLog s"
  by (simp add: executeAudited_action_throws [where act = act, OF assms] sessionLog_def)

theorem executeAudited_action_failure_witness:
  "case executeAudited example_env example_treasury example_reasoning failing_action of
     (result, s') \<Rightarrow>
       result = Inl (Thrown (js ''insufficient funds''))
     \<and> calls s' = calls example_treasury
         @ [Call_commitReasoning example_wallet
              (toReasoningTrace (createReasoningTrace example_env) example_reasoning),
            Call_action]
     \<and> actionLog s' = actionLog example_treasury
     \<and> arrays s' = arrays example_treasury
     \<and> objects s' = objects example_treasury
     \<and> sessionLog s' = sessionLog example_treasury"
proof -
  have h2: "wallet example_treasury = Some example_wallet"
    by (simp add: example_treasury_eq)
  have h3: "commitReasoning example_env example_wallet
              (toReasoningTrace (createReasoningTrace example_env) example_reasoning)
              (world example_treasury) = (Inr example_commit, 2)"
    by (simp add: example_env_def example_treasury_eq)
  have h4: "failing_action 2 = (Inl (js ''insufficient funds''), 2)"
    by (simp add: failing_action_def)
  show ?thesis
    using h2 h3 h4 by (rule executeAudited_action_failure)
qed


text \<open>
  C3. When the commit call rejects, \<^verbatim>\<open>executeAudited\<close> throws what it rejected
  with, the commit call is the only call made, and the ledger is unchanged. When the
  commit call and the action succeed and the reveal call rejects, \<^verbatim>\<open>executeAudited\<close>
  throws what the reveal call rejected with and the ledger is unchanged.
\<close>

theorem executeAudited_external_failure:
  assumes "wallet s = Some k"
  shows "(commitReasoning env k (toReasoningTrace (createReasoningTrace env) r) (world s)
            = (Inl x, w1) \<longrightarrow>
          (case executeAudited env s r act of
             (result, s') \<Rightarrow>
               result = Inl (Thrown x)
             \<and> calls s' = calls s
                 @ [Call_commitReasoning k (toReasoningTrace (createReasoningTrace env) r)]
             \<and> arrays s' = arrays s \<and> objects s' = objects s
             \<and> length (sessionLog s') = length (sessionLog s)))
       \<and> (commitReasoning env k (toReasoningTrace (createReasoningTrace env) r) (world s)
            = (Inr c, w1)
          \<and> act w1 = (Inr v, w2)
          \<and> revealReasoning env k (commitmentAddress c) (buildReasoningUri s r c) w2
            = (Inl y, w3) \<longrightarrow>
          (case executeAudited env s r act of
             (result, s') \<Rightarrow>
               result = Inl (Thrown y)
             \<and> calls s' = calls s
                 @ [Call_commitReasoning k (toReasoningTrace (createReasoningTrace env) r),
                    Call_action,
                    Call_revealReasoning k (commitmentAddress c) (buildReasoningUri s r c)]
             \<and> arrays s' = arrays s \<and> objects s' = objects s
             \<and> length (sessionLog s') = length (sessionLog s)))"
proof (intro conjI impI)
  assume "commitReasoning env k (toReasoningTrace (createReasoningTrace env) r) (world s)
            = (Inl x, w1)"
  with assms show "case executeAudited env s r act of
             (result, s') \<Rightarrow>
               result = Inl (Thrown x)
             \<and> calls s' = calls s
                 @ [Call_commitReasoning k (toReasoningTrace (createReasoningTrace env) r)]
             \<and> arrays s' = arrays s \<and> objects s' = objects s
             \<and> length (sessionLog s') = length (sessionLog s)"
    by (simp add: executeAudited_commit_rejects sessionLog_def)
next
  assume "commitReasoning env k (toReasoningTrace (createReasoningTrace env) r) (world s)
            = (Inr c, w1)
          \<and> act w1 = (Inr v, w2)
          \<and> revealReasoning env k (commitmentAddress c) (buildReasoningUri s r c) w2
            = (Inl y, w3)"
  with assms have "executeAudited env s r act =
     (Inl (Thrown y),
      s\<lparr>world := w3,
        calls := calls s
          @ [Call_commitReasoning k (toReasoningTrace (createReasoningTrace env) r),
             Call_action,
             Call_revealReasoning k (commitmentAddress c) (buildReasoningUri s r c)],
        ticks := ticks s + 5\<rparr>)"
    using executeAudited_reveal_rejects [where s = s and act = act and c = c and v = v
        and ?w1.0 = w1 and ?w2.0 = w2 and ?w3.0 = w3 and x = y and k = k and env = env and r = r]
    by simp
  then show "case executeAudited env s r act of
             (result, s') \<Rightarrow>
               result = Inl (Thrown y)
             \<and> calls s' = calls s
                 @ [Call_commitReasoning k (toReasoningTrace (createReasoningTrace env) r),
                    Call_action,
                    Call_revealReasoning k (commitmentAddress c) (buildReasoningUri s r c)]
             \<and> arrays s' = arrays s \<and> objects s' = objects s
             \<and> length (sessionLog s') = length (sessionLog s)"
    by (simp add: sessionLog_def)
qed

theorem executeAudited_external_failure_witness:
  "(case executeAudited rejecting_commit_env example_treasury example_reasoning example_action of
      (result, s') \<Rightarrow>
        result = Inl (Thrown (js ''rpc unreachable''))
      \<and> calls s' = calls example_treasury
          @ [Call_commitReasoning example_wallet
               (toReasoningTrace (createReasoningTrace rejecting_commit_env) example_reasoning)]
      \<and> arrays s' = arrays example_treasury \<and> objects s' = objects example_treasury
      \<and> length (sessionLog s') = length (sessionLog example_treasury))
   \<and> (case executeAudited rejecting_reveal_env example_treasury example_reasoning example_action of
      (result, s') \<Rightarrow>
        result = Inl (Thrown (js ''reveal rejected''))
      \<and> calls s' = calls example_treasury
          @ [Call_commitReasoning example_wallet
               (toReasoningTrace (createReasoningTrace rejecting_reveal_env) example_reasoning),
             Call_action,
             Call_revealReasoning example_wallet (commitmentAddress example_commit)
               (buildReasoningUri example_treasury example_reasoning example_commit)]
      \<and> arrays s' = arrays example_treasury \<and> objects s' = objects example_treasury
      \<and> length (sessionLog s') = length (sessionLog example_treasury))"
proof -
  have h: "wallet example_treasury = Some example_wallet"
    by (simp add: example_treasury_eq)
  have c1: "commitReasoning rejecting_commit_env example_wallet
              (toReasoningTrace (createReasoningTrace rejecting_commit_env) example_reasoning)
              (world example_treasury) = (Inl (js ''rpc unreachable''), 1)"
    by (simp add: rejecting_commit_env_def example_treasury_eq)
  have c2: "commitReasoning rejecting_reveal_env example_wallet
              (toReasoningTrace (createReasoningTrace rejecting_reveal_env) example_reasoning)
              (world example_treasury) = (Inr example_commit, 2)
          \<and> example_action 2 = (Inr (js ''ok''), 3)
          \<and> revealReasoning rejecting_reveal_env example_wallet (commitmentAddress example_commit)
              (buildReasoningUri example_treasury example_reasoning example_commit) 3
            = (Inl (js ''reveal rejected''), 3)"
    by (simp add: rejecting_reveal_env_def example_env_def example_treasury_eq
        example_action_def)
  from executeAudited_external_failure [where env = rejecting_commit_env
      and act = example_action and r = example_reasoning and x = "js ''rpc unreachable''"
      and ?w1.0 = 1, OF h, THEN conjunct1, THEN mp, OF c1]
  have first: "case executeAudited rejecting_commit_env example_treasury example_reasoning
                      example_action of
      (result, s') \<Rightarrow>
        result = Inl (Thrown (js ''rpc unreachable''))
      \<and> calls s' = calls example_treasury
          @ [Call_commitReasoning example_wallet
               (toReasoningTrace (createReasoningTrace rejecting_commit_env) example_reasoning)]
      \<and> arrays s' = arrays example_treasury \<and> objects s' = objects example_treasury
      \<and> length (sessionLog s') = length (sessionLog example_treasury)"
    .
  from executeAudited_external_failure [where env = rejecting_reveal_env
      and act = example_action and r = example_reasoning and y = "js ''reveal rejected''"
      and c = example_commit and v = "js ''ok''"
      and ?w1.0 = 2 and ?w2.0 = 3 and ?w3.0 = 3, OF h, THEN conjunct2, THEN mp, OF c2]
  have second: "case executeAudited rejecting_reveal_env example_treasury example_reasoning
                       example_action of
      (result, s') \<Rightarrow>
        result = Inl (Thrown (js ''reveal rejected''))
      \<and> calls s' = calls example_treasury
          @ [Call_commitReasoning example_wallet
               (toReasoningTrace (createReasoningTrace rejecting_reveal_env) example_reasoning),
             Call_action,
             Call_revealReasoning example_wallet (commitmentAddress example_commit)
               (buildReasoningUri example_treasury example_reasoning example_commit)]
      \<and> arrays s' = arrays example_treasury \<and> objects s' = objects example_treasury
      \<and> length (sessionLog s') = length (sessionLog example_treasury)"
    .
  from first second show ?thesis by (rule conjI)
qed

text \<open>
  C4, as the code has it. \<^verbatim>\<open>ensureReady\<close> tests the wallet alone. While no wallet
  has been set, \<^verbatim>\<open>isReady()\<close> is false and \<^verbatim>\<open>executeAudited\<close> throws the
  not-initialized error with nothing done: no call on the client, the action not
  invoked, the whole state, and so the ledger, as before.
\<close>

theorem executeAudited_without_wallet:
  assumes "wallet s = None"
  shows "\<not> isReady s
    \<and> (case executeAudited env s r act of
          (result, s') \<Rightarrow>
            result =
              Inl (Error (js ''SolprismTreasury not initialized. Call initialize(wallet) first.''))
          \<and> calls s' = calls s
          \<and> world s' = world s
          \<and> sessionLog s' = sessionLog s
          \<and> s' = s)"
  using assms
  by (simp add: executeAudited_no_wallet isReady_def NotInitialized_message_def)

theorem executeAudited_without_wallet_witness:
  "\<not> isReady fresh_treasury
    \<and> (case executeAudited example_env fresh_treasury example_reasoning example_action of
          (result, s') \<Rightarrow>
            result =
              Inl (Error (js ''SolprismTreasury not initialized. Call initialize(wallet) first.''))
          \<and> calls s' = calls fresh_treasury
          \<and> world s' = world fresh_treasury
          \<and> sessionLog s' = sessionLog fresh_treasury
          \<and> s' = fresh_treasury)"
proof -
  have h: "wallet fresh_treasury = None"
    by (simp add: fresh_treasury_def constructor_def)
  show ?thesis
    using h by (rule executeAudited_without_wallet)
qed


text \<open>
  C4 as stated fails: after \<^verbatim>\<open>initialize\<close> under \<^verbatim>\<open>autoRegister: false\<close> the
  wallet is set and the agent is not marked registered, so \<^verbatim>\<open>isReady()\<close> is false;
  \<^verbatim>\<open>executeAudited\<close> does not throw the not-initialized error but runs the commit
  call, the action and the reveal call, and returns a result.
\<close>

theorem executeAudited_unregistered_counterexample:
  "\<not> isReady unregistered_treasury
   \<and> fst (executeAudited example_env unregistered_treasury example_reasoning example_action)
       = Inr 0
   \<and> fst (executeAudited example_env unregistered_treasury example_reasoning example_action)
       \<noteq> Inl NotInitialized
   \<and> calls (snd (executeAudited example_env unregistered_treasury example_reasoning
                   example_action))
       = [Call_commitReasoning example_wallet (traceInput example_reasoning),
          Call_action,
          Call_revealReasoning example_wallet (js ''Cmt111'')
            (js ''https://www.solprism.app/commitment/Cmt111'')]"
proof -
  have h2: "wallet unregistered_treasury = Some example_wallet"
    by (simp add: unregistered_treasury_eq)
  have h3: "commitReasoning example_env example_wallet
              (toReasoningTrace (createReasoningTrace example_env) example_reasoning)
              (world unregistered_treasury) = (Inr example_commit, 1)"
    by (simp add: example_env_def unregistered_treasury_eq)
  have h4: "example_action 1 = (Inr (js ''ok''), 2)"
    by (simp add: example_action_def)
  have h5: "revealReasoning example_env example_wallet (commitmentAddress example_commit)
              (buildReasoningUri unregistered_treasury example_reasoning example_commit) 2
            = (Inr \<lparr>revealSignature = js ''sig-reveal'',
                    reasoningUri =
                      buildReasoningUri unregistered_treasury example_reasoning example_commit\<rparr>, 3)"
    by (simp add: example_env_def)
  have uri: "buildReasoningUri unregistered_treasury example_reasoning example_commit
             = js ''https://www.solprism.app/commitment/Cmt111''"
    by (simp add: buildReasoningUri_def unregistered_treasury_eq example_config_def
        example_commit_def SOLPRISM_EXPLORER_def js_def)
  have tr: "toReasoningTrace (createReasoningTrace example_env) example_reasoning
            = traceInput example_reasoning"
    by (simp add: toReasoningTrace_def example_env_def)
  have nr: "\<not> isReady unregistered_treasury"
    by (simp add: isReady_def unregistered_treasury_eq)
  have st: "calls unregistered_treasury = []" "objects unregistered_treasury = []"
    by (simp_all add: unregistered_treasury_eq)
  have ad: "commitmentAddress example_commit = js ''Cmt111''"
    by (simp add: example_commit_def)
  show ?thesis
    using nr
    by (simp add: executeAudited_resolves [where act = example_action, OF h2 h3 h4 h5] uri tr
        st ad)
qed

text \<open>
  C6, as the code has it. When the commit call and the action succeed, the reveal call
  is made with the commitment address and with the URI \<^verbatim>\<open>{reasoningStorageUri}/{commitmentHash}\<close>
  when the configuration has a storage base URI that is not the empty string, and with
  \<^verbatim>\<open>https://www.solprism.app/commitment/{commitmentAddress}\<close> when it has none or
  has the empty string.
\<close>

theorem reveal_uri:
  assumes "wallet s = Some k"
    and "commitReasoning env k (toReasoningTrace (createReasoningTrace env) r) (world s)
           = (Inr c, w1)"
    and "act w1 = (Inr v, w2)"
  shows "calls (snd (executeAudited env s r act)) =
     calls s
     @ [Call_commitReasoning k (toReasoningTrace (createReasoningTrace env) r),
        Call_action,
        Call_revealReasoning k (commitmentAddress c)
          (case reasoningStorageUri (config s) of
             None \<Rightarrow> js ''https://www.solprism.app/commitment/'' @ commitmentAddress c
           | Some baseUri \<Rightarrow>
               if baseUri = [] then
                 js ''https://www.solprism.app/commitment/'' @ commitmentAddress c
               else baseUri @ js ''/'' @ commitmentHash c)]"
proof -
  have uri: "buildReasoningUri s r c =
          (case reasoningStorageUri (config s) of
             None \<Rightarrow> js ''https://www.solprism.app/commitment/'' @ commitmentAddress c
           | Some baseUri \<Rightarrow>
               if baseUri = [] then
                 js ''https://www.solprism.app/commitment/'' @ commitmentAddress c
               else baseUri @ js ''/'' @ commitmentHash c)"
    by (simp add: buildReasoningUri_def SOLPRISM_EXPLORER_def js_def split: option.splits)
  obtain res w3 where rev:
    "revealReasoning env k (commitmentAddress c) (buildReasoningUri s r c) w2 = (res, w3)"
    by (cases "revealReasoning env k (commitmentAddress c) (buildReasoningUri s r c) w2")
  show ?thesis
  proof (cases res)
    case (Inl x)
    with rev have "revealReasoning env k (commitmentAddress c) (buildReasoningUri s r c) w2
        = (Inl x, w3)" by simp
    from executeAudited_reveal_rejects [where act = act, OF assms this] uri
    show ?thesis by simp
  next
    case (Inr rv)
    with rev have "revealReasoning env k (commitmentAddress c) (buildReasoningUri s r c) w2
        = (Inr rv, w3)" by simp
    from executeAudited_resolves [where act = act, OF assms this] uri
    show ?thesis by simp
  qed
qed

theorem reveal_uri_witness:
  "calls (snd (executeAudited example_env storage_uri_treasury example_reasoning example_action)) =
     calls storage_uri_treasury
     @ [Call_commitReasoning example_wallet
          (toReasoningTrace (createReasoningTrace example_env) example_reasoning),
        Call_action,
        Call_revealReasoning example_wallet (commitmentAddress example_commit)
          (case reasoningStorageUri (config storage_uri_treasury) of
             None \<Rightarrow> js ''https://www.solprism.app/commitment/'' @ commitmentAddress example_commit
           | Some baseUri \<Rightarrow>
               if baseUri = [] then
                 js ''https://www.solprism.app/commitment/'' @ commitmentAddress example_commit
               else baseUri @ js ''/'' @ commitmentHash example_commit)]
   \<and> (case reasoningStorageUri (config storage_uri_treasury) of
             None \<Rightarrow> js ''https://www.solprism.app/commitment/'' @ commitmentAddress example_commit
           | Some baseUri \<Rightarrow>
               if baseUri = [] then
                 js ''https://www.solprism.app/commitment/'' @ commitmentAddress example_commit
               else baseUri @ js ''/'' @ commitmentHash example_commit)
       = js ''ipfs://store/a3f8c9d1e2b7a3f8c9d1e2b7''"
proof -
  have h2: "wallet storage_uri_treasury = Some example_wallet"
    by (simp add: storage_uri_treasury_eq)
  have h3: "commitReasoning example_env example_wallet
              (toReasoningTrace (createReasoningTrace example_env) example_reasoning)
              (world storage_uri_treasury) = (Inr example_commit, 2)"
    by (simp add: example_env_def storage_uri_treasury_eq)
  have h4: "example_action 2 = (Inr (js ''ok''), 3)"
    by (simp add: example_action_def)
  have v: "(case reasoningStorageUri (config storage_uri_treasury) of
             None \<Rightarrow> js ''https://www.solprism.app/commitment/'' @ commitmentAddress example_commit
           | Some baseUri \<Rightarrow>
               if baseUri = [] then
                 js ''https://www.solprism.app/commitment/'' @ commitmentAddress example_commit
               else baseUri @ js ''/'' @ commitmentHash example_commit)
       = js ''ipfs://store/a3f8c9d1e2b7a3f8c9d1e2b7''"
    by (simp add: storage_uri_treasury_eq example_config_def example_commit_def js_def)
  from reveal_uri [where act = example_action, OF h2 h3 h4] v
  show ?thesis by (rule conjI)
qed


text \<open>
  C6 as stated fails: with \<^verbatim>\<open>reasoningStorageUri: ''\<close> in the configuration, a
  storage base URI is there, and the reveal call is made with the default URI of the
  commitment address, not with the base followed by \<^verbatim>\<open>/\<close> and the commitment hash.
\<close>

theorem reveal_uri_empty_base_counterexample:
  "reasoningStorageUri (config empty_uri_treasury) = Some (js '''')
   \<and> fst (executeAudited example_env empty_uri_treasury example_reasoning example_action)
       = Inr 0
   \<and> calls (snd (executeAudited example_env empty_uri_treasury example_reasoning
                   example_action))
       = calls empty_uri_treasury
         @ [Call_commitReasoning example_wallet (traceInput example_reasoning),
            Call_action,
            Call_revealReasoning example_wallet (commitmentAddress example_commit)
              (js ''https://www.solprism.app/commitment/Cmt111'')]
   \<and> js ''https://www.solprism.app/commitment/Cmt111''
       \<noteq> js '''' @ js ''/'' @ commitmentHash example_commit"
proof -
  have h2: "wallet empty_uri_treasury = Some example_wallet"
    by (simp add: empty_uri_treasury_eq)
  have h3: "commitReasoning example_env example_wallet
              (toReasoningTrace (createReasoningTrace example_env) example_reasoning)
              (world empty_uri_treasury) = (Inr example_commit, 2)"
    by (simp add: example_env_def empty_uri_treasury_eq)
  have h4: "example_action 2 = (Inr (js ''ok''), 3)"
    by (simp add: example_action_def)
  have h5: "revealReasoning example_env example_wallet (commitmentAddress example_commit)
              (buildReasoningUri empty_uri_treasury example_reasoning example_commit) 3
            = (Inr \<lparr>revealSignature = js ''sig-reveal'',
                    reasoningUri =
                      buildReasoningUri empty_uri_treasury example_reasoning example_commit\<rparr>, 4)"
    by (simp add: example_env_def)
  have uri: "buildReasoningUri empty_uri_treasury example_reasoning example_commit
             = js ''https://www.solprism.app/commitment/Cmt111''"
    by (simp add: buildReasoningUri_def empty_uri_treasury_eq example_config_def
        example_commit_def SOLPRISM_EXPLORER_def js_def)
  have tr: "toReasoningTrace (createReasoningTrace example_env) example_reasoning
            = traceInput example_reasoning"
    by (simp add: toReasoningTrace_def example_env_def)
  have st: "objects empty_uri_treasury = []"
    "reasoningStorageUri (config empty_uri_treasury) = Some (js '''')"
    by (simp_all add: empty_uri_treasury_eq example_config_def js_def)
  have ne: "js ''https://www.solprism.app/commitment/Cmt111''
       \<noteq> js '''' @ js ''/'' @ commitmentHash example_commit"
    by (simp add: js_def example_commit_def)
  show ?thesis
    using ne
    by (simp add: executeAudited_resolves [where act = example_action, OF h2 h3 h4 h5] uri tr st)
qed


text \<open>
  C7. When successive readings of the clock never decrease, the result object that
  \<^verbatim>\<open>executeAudited\<close> returns, which is the one it appends to the ledger, has
  \<^verbatim>\<open>committed\<close> no later than \<^verbatim>\<open>executed\<close> and \<^verbatim>\<open>executed\<close> no later than
  \<^verbatim>\<open>revealed\<close>.
\<close>

theorem timestamps_ordered:
  assumes "\<forall>i j. i \<le> j \<longrightarrow> Date_now env i \<le> Date_now env j"
    and "executeAudited env s r act = (Inr result, s')"
  shows "committed (timestamps (objects s' ! result)) \<le> executed (timestamps (objects s' ! result))
       \<and> executed (timestamps (objects s' ! result)) \<le> revealed (timestamps (objects s' ! result))"
proof (cases "wallet s")
  case None
  with assms(2) show ?thesis
    by (simp add: executeAudited_no_wallet)
next
  case (Some k)
  obtain cr w1 where c:
    "commitReasoning env k (toReasoningTrace (createReasoningTrace env) r) (world s) = (cr, w1)"
    by (cases "commitReasoning env k (toReasoningTrace (createReasoningTrace env) r) (world s)")
  show ?thesis
  proof (cases cr)
    case (Inl x)
    with assms(2) Some c show ?thesis
      by (simp add: executeAudited_commit_rejects)
  next
    case cok: (Inr cm)
    obtain ar w2 where a: "act w1 = (ar, w2)"
      by (cases "act w1")
    show ?thesis
    proof (cases ar)
      case (Inl x)
      with c cok a have "executeAudited env s r act =
        (Inl (Thrown x),
          s\<lparr>world := w2,
            calls := calls s
              @ [Call_commitReasoning k (toReasoningTrace (createReasoningTrace env) r),
                 Call_action],
            ticks := ticks s + 5\<rparr>)"
        using executeAudited_action_throws [where act = act and s = s and k = k and env = env
            and r = r and c = cm and ?w1.0 = w1 and x = x and ?w2.0 = w2] Some
        by simp
      with assms(2) show ?thesis by simp
    next
      case aok: (Inr v)
      obtain rr w3 where rv:
        "revealReasoning env k (commitmentAddress cm) (buildReasoningUri s r cm) w2 = (rr, w3)"
        by (cases "revealReasoning env k (commitmentAddress cm) (buildReasoningUri s r cm) w2")
      show ?thesis
      proof (cases rr)
        case (Inl x)
        have "executeAudited env s r act =
          (Inl (Thrown x),
            s\<lparr>world := w3,
              calls := calls s
                @ [Call_commitReasoning k (toReasoningTrace (createReasoningTrace env) r),
                   Call_action,
                   Call_revealReasoning k (commitmentAddress cm) (buildReasoningUri s r cm)],
              ticks := ticks s + 5\<rparr>)"
          using executeAudited_reveal_rejects [where act = act and s = s and k = k
              and env = env and r = r and c = cm and ?w1.0 = w1 and v = v and ?w2.0 = w2
              and x = x and ?w3.0 = w3] Some c cok a aok rv Inl
          by simp
        with assms(2) show ?thesis by simp
      next
        case (Inr rvl)
        have run: "executeAudited env s r act =
          (Inr (length (objects s)),
            s\<lparr>world := w3,
              calls := calls s
                @ [Call_commitReasoning k (toReasoningTrace (createReasoningTrace env) r),
                   Call_action,
                   Call_revealReasoning k (commitmentAddress cm) (buildReasoningUri s r cm)],
              ticks := ticks s + 6,
              objects := objects s
                @ [\<lparr> reasoning = r, commit = cm, reveal = rvl, actionResult = v,
                     explorerUrl = buildExplorerUrl (commitmentAddress cm),
                     timestamps =
                       \<lparr> committed = Date_now env (ticks s + 3),
                         executed = Date_now env (ticks s + 4),
                         revealed = Date_now env (ticks s + 5) \<rparr> \<rparr>],
              arrays := (arrays s)[actionLog s := arrays s ! actionLog s @ [length (objects s)]]\<rparr>)"
          using executeAudited_resolves [where act = act and s = s and k = k
              and env = env and r = r and c = cm and ?w1.0 = w1 and v = v and ?w2.0 = w2
              and rv = rvl and ?w3.0 = w3] Some c cok a aok rv Inr
          by simp
        have "Date_now env (ticks s + 3) \<le> Date_now env (ticks s + 4)"
          "Date_now env (ticks s + 4) \<le> Date_now env (ticks s + 5)"
          using assms(1) by simp_all
        with assms(2) run show ?thesis by auto
      qed
    qed
  qed
qed

theorem timestamps_ordered_witness:
  "committed (timestamps (objects example_after_one ! 0))
     \<le> executed (timestamps (objects example_after_one ! 0))
   \<and> executed (timestamps (objects example_after_one ! 0))
     \<le> revealed (timestamps (objects example_after_one ! 0))"
proof -
  have m: "\<forall>i j. i \<le> j \<longrightarrow> Date_now example_env i \<le> Date_now example_env j"
    by (simp add: example_env_def)
  show ?thesis
    using m example_run by (rule timestamps_ordered)
qed


subsection \<open>Queries on the client\<close>

text \<open>
  C10. While no wallet has been set, \<^verbatim>\<open>getAccountabilityScore\<close> and
  \<^verbatim>\<open>getAuditHistory\<close> throw the same not-initialized error as \<^verbatim>\<open>executeAudited\<close>
  and leave the state, and so the record of calls, as it was. Once a wallet is set
  they make the one client call, with the wallet's public key and, for the history,
  the limit or 50 when none is given, and pass on what the client resolves or rejects
  with. \<^verbatim>\<open>verifyAction\<close> makes its client call whatever the wallet and never throws
  that error.
\<close>

theorem accountability_requires_wallet:
  "(wallet s = None \<longrightarrow>
      getAccountabilityScore env s = (Inl NotInitialized, s)
    \<and> getAuditHistory env s limit = (Inl NotInitialized, s)
    \<and> executeAudited env s r act = (Inl NotInitialized, s))
   \<and> (wallet s = Some k \<longrightarrow>
      getAccountabilityScore env s =
        (case getAccountability env (publicKey k) (world s) of
           (result, w') \<Rightarrow>
             (map_sum Thrown id result,
              s\<lparr>world := w', calls := calls s @ [Call_getAccountability (publicKey k)]\<rparr>))
    \<and> getAuditHistory env s limit =
        (case getAgentCommitments env (publicKey k)
                (case limit of None \<Rightarrow> 50 | Some l \<Rightarrow> l) (world s) of
           (result, w') \<Rightarrow>
             (map_sum Thrown id result,
              s\<lparr>world := w',
                calls := calls s
                  @ [Call_getAgentCommitments (publicKey k)
                       (case limit of None \<Rightarrow> 50 | Some l \<Rightarrow> l)]\<rparr>)))
   \<and> fst (verifyAction env s a r) \<noteq> Inl NotInitialized
   \<and> calls (snd (verifyAction env s a r)) =
       calls s @ [Call_verifyReasoning a (toReasoningTrace (createReasoningTrace env) r)]"
  by (auto simp add: getAccountabilityScore_def getAuditHistory_def ensureReady_def
      external_def executeAudited_no_wallet verifyAction_def Let_def
      split: prod.splits sum.splits option.splits)


theorem accountability_requires_wallet_witness:
  "(getAccountabilityScore example_env fresh_treasury = (Inl NotInitialized, fresh_treasury)
    \<and> getAuditHistory example_env fresh_treasury None = (Inl NotInitialized, fresh_treasury)
    \<and> executeAudited example_env fresh_treasury example_reasoning example_action
        = (Inl NotInitialized, fresh_treasury))
   \<and> (getAccountabilityScore example_env example_treasury =
        (case getAccountability example_env (publicKey example_wallet) (world example_treasury) of
           (result, w') \<Rightarrow>
             (map_sum Thrown id result,
              example_treasury
                \<lparr>world := w',
                 calls := calls example_treasury
                   @ [Call_getAccountability (publicKey example_wallet)]\<rparr>))
    \<and> getAuditHistory example_env example_treasury None =
        (case getAgentCommitments example_env (publicKey example_wallet)
                (case None of None \<Rightarrow> 50 | Some l \<Rightarrow> l) (world example_treasury) of
           (result, w') \<Rightarrow>
             (map_sum Thrown id result,
              example_treasury
                \<lparr>world := w',
                 calls := calls example_treasury
                   @ [Call_getAgentCommitments (publicKey example_wallet)
                        (case None of None \<Rightarrow> 50 | Some l \<Rightarrow> l)]\<rparr>)))"
proof -
  have n: "wallet fresh_treasury = None"
    by (simp add: fresh_treasury_def constructor_def)
  have w: "wallet example_treasury = Some example_wallet"
    by (simp add: example_treasury_eq)
  note a = accountability_requires_wallet [where s = fresh_treasury and env = example_env
      and limit = None and r = example_reasoning and act = example_action,
      THEN conjunct1, THEN mp, OF n]
  note b = accountability_requires_wallet [where s = example_treasury and env = example_env
      and limit = None and k = example_wallet,
      THEN conjunct2, THEN conjunct1, THEN mp, OF w]
  from a b show ?thesis by (rule conjI)
qed

subsection \<open>The session ledger\<close>

lemma report_loop_blocks:
  "report_loop env objs rs lines = lines @ concat (map (\<lambda>r. entry_lines env (objs ! r)) rs)"
  by (induction rs arbitrary: lines) simp_all

text \<open>
  C9. On an empty ledger \<^verbatim>\<open>formatAuditReport\<close> returns the sentence
  \<^verbatim>\<open>No audited actions in this session.\<close>; on a ledger of \<open>n > 0\<close> records it
  returns, joined by newlines, a header with the agent name and the count \<open>n\<close>, then
  for each record in ledger order one block of eight lines showing the upper-cased
  action kind, the rationale, the risk level and factors, the expected outcome, the
  first sixteen code units of the commitment hash, the explorer URL and the committed
  timestamp, then a footer.
\<close>

theorem formatAuditReport_blocks:
  fixes s :: "('w, 'a, 't) SolprismTreasury" and env :: "('w, 'x, 't, 'h) env"
  defines "n \<equiv> length (sessionLog s)"
  shows "(n = 0 \<longrightarrow> formatAuditReport env s = js ''No audited actions in this session.'')
   \<and> (n \<noteq> 0 \<longrightarrow>
        formatAuditReport env s =
          join [10]
            ([ replicate 51 0x2550,
               js ''  SOLPRISM Audit Report '' @ [0x2014] @ js '' Agent Treasury Manager'',
               replicate 51 0x2550,
               [],
               js ''  Agent: '' @ agentName (config s),
               js ''  Actions: '' @ String_of_nat n,
               js ''  Session: '' @ toISOString env (committed (timestamps (sessionLog s ! 0))),
               [] ]
             @ concat (map (\<lambda>entry.
                 [ js ''  '' @ [0x250C, 0x2500] @ js '' ''
                     @ toUpperCase (TreasuryActionType_string (action (reasoning entry))),
                   js ''  '' @ [0x2502] @ js ''  Rationale: '' @ rationale (reasoning entry),
                   js ''  '' @ [0x2502] @ js ''  Risk: ''
                     @ RiskLevel_string (level (risk (reasoning entry)))
                     @ js '' ('' @ join (js '', '') (factors (risk (reasoning entry))) @ js '')'',
                   js ''  '' @ [0x2502] @ js ''  Expected: '' @ expectedOutcome (reasoning entry),
                   js ''  '' @ [0x2502] @ js ''  Commitment: ''
                     @ take 16 (commitmentHash (commit entry)) @ js ''...'',
                   js ''  '' @ [0x2502] @ js ''  Explorer: '' @ explorerUrl entry,
                   js ''  '' @ [0x2514, 0x2500] @ js '' Committed ''
                     @ toISOString env (committed (timestamps entry)),
                   [] ]) (sessionLog s))
             @ [ replicate 51 0x2550,
                 js ''  Verify any action: https://www.solprism.app/'',
                 replicate 51 0x2550 ]))"
proof -
  have blocks: "concat (map (\<lambda>r. entry_lines env (objects s ! r)) (arrays s ! actionLog s))
      = concat (map (entry_lines env) (sessionLog s))"
    by (simp add: sessionLog_def comp_def)
  have first: "arrays s ! actionLog s \<noteq> [] \<Longrightarrow>
      objects s ! (arrays s ! actionLog s ! 0) = sessionLog s ! 0"
    by (simp add: sessionLog_def)
  have e: "(sessionLog s = []) = (arrays s ! actionLog s = [])"
    "length (arrays s ! actionLog s) = length (sessionLog s)"
    by (simp_all add: sessionLog_def)
  show ?thesis
    unfolding n_def
    by (simp add: formatAuditReport_def Let_def report_loop_blocks blocks first rule51_def
        entry_lines_def [abs_def] slice0_def e del: join.simps)
      (simp add: sessionLog_def comp_def del: join.simps)
qed

theorem formatAuditReport_blocks_witness:
  "formatAuditReport example_env fresh_treasury = js ''No audited actions in this session.''
   \<and> formatAuditReport example_env example_after_one =
       join [10]
         [ replicate 51 0x2550,
           js ''  SOLPRISM Audit Report '' @ [0x2014] @ js '' Agent Treasury Manager'',
           replicate 51 0x2550,
           [],
           js ''  Agent: Skippy Treasury Agent'',
           js ''  Actions: 1'',
           js ''  Session: 1003'',
           [],
           js ''  '' @ [0x250C, 0x2500] @ js '' REBALANCE'',
           js ''  '' @ [0x2502] @ js ''  Rationale: SOL allocation drifted to 68%'',
           js ''  '' @ [0x2502] @ js ''  Risk: low (Small position adjustment, High liquidity)'',
           js ''  '' @ [0x2502] @ js ''  Expected: Portfolio returns to 50/50'',
           js ''  '' @ [0x2502] @ js ''  Commitment: a3f8c9d1e2b7a3f8...'',
           js ''  '' @ [0x2502] @ js ''  Explorer: https://www.solprism.app/commitment/Cmt111'',
           js ''  '' @ [0x2514, 0x2500] @ js '' Committed 1003'',
           [],
           replicate 51 0x2550,
           js ''  Verify any action: https://www.solprism.app/'',
           replicate 51 0x2550 ]"
proof -
  have h0: "length (sessionLog fresh_treasury) = 0"
    by (simp add: sessionLog_def fresh_treasury_def constructor_def)
  have log: "sessionLog example_after_one = [objects example_after_one ! 0]"
    by (simp add: sessionLog_def example_after_one_eq)
  then have h1: "length (sessionLog example_after_one) \<noteq> 0"
    by simp
  note a = formatAuditReport_blocks [where s = fresh_treasury and env = example_env,
      THEN conjunct1, THEN mp, OF h0]
  note b = formatAuditReport_blocks [where s = example_after_one and env = example_env,
      THEN conjunct2, THEN mp, OF h1]
  have s1: "String_of_nat (Suc 0) = js ''1''" "String_of_nat 1003 = js ''1003''"
    by (simp_all add: String_of_nat.simps js_def)
  have j2: "join sep [x, y] = x @ sep @ y" for sep x y
    by simp
  have b': "formatAuditReport example_env example_after_one =
       join [10]
         [ replicate 51 0x2550,
           js ''  SOLPRISM Audit Report '' @ [0x2014] @ js '' Agent Treasury Manager'',
           replicate 51 0x2550,
           [],
           js ''  Agent: Skippy Treasury Agent'',
           js ''  Actions: 1'',
           js ''  Session: 1003'',
           [],
           js ''  '' @ [0x250C, 0x2500] @ js '' REBALANCE'',
           js ''  '' @ [0x2502] @ js ''  Rationale: SOL allocation drifted to 68%'',
           js ''  '' @ [0x2502] @ js ''  Risk: low (Small position adjustment, High liquidity)'',
           js ''  '' @ [0x2502] @ js ''  Expected: Portfolio returns to 50/50'',
           js ''  '' @ [0x2502] @ js ''  Commitment: a3f8c9d1e2b7a3f8...'',
           js ''  '' @ [0x2502] @ js ''  Explorer: https://www.solprism.app/commitment/Cmt111'',
           js ''  '' @ [0x2514, 0x2500] @ js '' Committed 1003'',
           [],
           replicate 51 0x2550,
           js ''  Verify any action: https://www.solprism.app/'',
           replicate 51 0x2550 ]"
    unfolding b log
    by (simp add: example_after_one_eq example_env_def example_config_def
        example_reasoning_def example_commit_def s1 j2 toUpperCase_def js_def
        del: join.simps replicate.simps)
  from a b' show ?thesis by (rule conjI)
qed


text \<open>
  C8, as the code has it. \<^verbatim>\<open>getSessionLog\<close> returns a new array, not the ledger's own,
  holding the ledger's elements; two calls in a row return arrays with the same
  elements. Whatever contents the caller gives the returned array, a later
  \<^verbatim>\<open>getSessionLog\<close> returns the ledger's elements as before, and the ledger's records
  and \<^verbatim>\<open>formatAuditReport\<close> are unchanged.
\<close>

theorem getSessionLog_shallow_copy:
  assumes "store_ok s"
  shows "case getSessionLog s of
           (a, s1) \<Rightarrow>
             a \<noteq> actionLog s1
           \<and> map (\<lambda>r. objects s1 ! r) (arrays s1 ! a) = sessionLog s
           \<and> (case getSessionLog s1 of
                (b, s2) \<Rightarrow> arrays s2 ! b = arrays s1 ! a \<and> objects s2 = objects s1)
           \<and> (case getSessionLog (array_assign a xs s1) of
                (b, s2) \<Rightarrow>
                  arrays s2 ! b = arrays s ! actionLog s
                \<and> map (\<lambda>r. objects s2 ! r) (arrays s2 ! b) = sessionLog s)
           \<and> sessionLog (array_assign a xs s1) = sessionLog s
           \<and> formatAuditReport env (array_assign a xs s1) = formatAuditReport env s"
  using assms
  by (simp add: getSessionLog_def new_array_def array_assign_def formatAuditReport_def
      sessionLog_def store_ok_def nth_append Let_def del: join.simps)

theorem getSessionLog_shallow_copy_witness:
  "case getSessionLog example_after_one of
           (a, s1) \<Rightarrow>
             a \<noteq> actionLog s1
           \<and> map (\<lambda>r. objects s1 ! r) (arrays s1 ! a) = sessionLog example_after_one
           \<and> (case getSessionLog s1 of
                (b, s2) \<Rightarrow> arrays s2 ! b = arrays s1 ! a \<and> objects s2 = objects s1)
           \<and> (case getSessionLog (array_assign a [] s1) of
                (b, s2) \<Rightarrow>
                  arrays s2 ! b = arrays example_after_one ! actionLog example_after_one
                \<and> map (\<lambda>r. objects s2 ! r) (arrays s2 ! b) = sessionLog example_after_one)
           \<and> sessionLog (array_assign a [] s1) = sessionLog example_after_one
           \<and> formatAuditReport example_env (array_assign a [] s1)
               = formatAuditReport example_env example_after_one"
  using store_ok_example_after_one by (rule getSessionLog_shallow_copy)


text \<open>
  C8 as stated fails: the copy is shallow. The elements of the returned array are the
  ledger's own result objects, so a write to a field of one of them, reached through
  the returned array, changes the ledger's record and the report.
\<close>

theorem getSessionLog_element_write_counterexample:
  "explorerUrl (sessionLog example_after_one ! 0)
     = js ''https://www.solprism.app/commitment/Cmt111''
   \<and> explorerUrl (sessionLog tampered_treasury ! 0) = js ''tampered''
   \<and> sessionLog tampered_treasury \<noteq> sessionLog example_after_one
   \<and> formatAuditReport example_env tampered_treasury
       \<noteq> formatAuditReport example_env example_after_one"
proof -
  have a: "explorerUrl (sessionLog example_after_one ! 0)
     = js ''https://www.solprism.app/commitment/Cmt111''"
    by (simp add: sessionLog_def example_after_one_eq)
  have b: "explorerUrl (sessionLog tampered_treasury ! 0) = js ''tampered''"
    by (simp add: sessionLog_def tampered_treasury_eq example_after_one_eq)
  have c: "sessionLog tampered_treasury \<noteq> sessionLog example_after_one"
  proof
    assume "sessionLog tampered_treasury = sessionLog example_after_one"
    with a b have "js ''tampered'' = js ''https://www.solprism.app/commitment/Cmt111''"
      by simp
    then show False by (simp add: js_def)
  qed
  have d: "formatAuditReport example_env tampered_treasury
       \<noteq> formatAuditReport example_env example_after_one"
    by (simp add: formatAuditReport_def tampered_treasury_eq example_after_one_eq
        entry_lines_def rule51_def example_env_def example_config_def
        example_reasoning_def example_commit_def toUpperCase_def slice0_def js_def
        String_of_nat.simps)
  from a b c d show ?thesis by simp
qed


end
